theory Spec2Isabelle
  imports Complex_Main "HOL-Library.AList"
begin

section \<open>Go strings and the library functions the exporter calls\<close>

text \<open>
  A Go string is a sequence of bytes, here a \<open>string\<close> (a list of 8-bit characters).
  The functions of package \<open>strings\<close> that the exporter uses are written out below, with
  the argument order of Go. Separators and replaced substrings are single bytes in every
  call of the source, so they are characters here.
\<close>

definition HasPrefix :: "string \<Rightarrow> string \<Rightarrow> bool" where
  "HasPrefix s p = (take (length p) s = p)"

definition HasSuffix :: "string \<Rightarrow> string \<Rightarrow> bool" where
  "HasSuffix s p = (drop (length s - length p) s = p \<and> length p \<le> length s)"

text \<open>\<open>strings.Split(s, sep)\<close> for a one-byte separator: always at least one piece.\<close>

fun Split :: "string \<Rightarrow> char \<Rightarrow> string list" where
  "Split [] sep = [[]]"
| "Split (c # cs) sep =
     (if c = sep then [] # Split cs sep
      else (case Split cs sep of [] \<Rightarrow> [[c]] | piece # pieces \<Rightarrow> (c # piece) # pieces))"

definition newline :: char where
  "newline = CHR 0x0A"

definition ReplaceAll :: "string \<Rightarrow> char \<Rightarrow> char \<Rightarrow> string" where
  "ReplaceAll s old new = map (\<lambda>c. if c = old then new else c) s"

text \<open>
  White space is \<open>unicode.IsSpace\<close>: the six ASCII characters and the code points U+0085,
  U+00A0, U+1680, U+2000 to U+200A, U+2028, U+2029, U+202F, U+205F and U+3000, the latter
  listed here by their UTF-8 encodings. Each of these encodings starts with a lead byte,
  which is never a continuation byte of another rune, so an occurrence of an encoding in the
  bytes is a white-space rune of Go's decoder, forwards (\<open>Fields\<close>) and backwards
  (\<open>TrimSpace\<close>).
\<close>

definition isASCII :: "char \<Rightarrow> bool" where
  "isASCII c = ((of_char c :: nat) < 128)"

definition asciiSpace :: string where
  "asciiSpace = [CHR 0x09, CHR 0x0A, CHR 0x0B, CHR 0x0C, CHR 0x0D, CHR 0x20]"

definition unicodeSpace :: "string list" where
  "unicodeSpace =
     [[CHR 0xC2, CHR 0x85], [CHR 0xC2, CHR 0xA0],
      [CHR 0xE1, CHR 0x9A, CHR 0x80],
      [CHR 0xE2, CHR 0x80, CHR 0x80], [CHR 0xE2, CHR 0x80, CHR 0x81],
      [CHR 0xE2, CHR 0x80, CHR 0x82], [CHR 0xE2, CHR 0x80, CHR 0x83],
      [CHR 0xE2, CHR 0x80, CHR 0x84], [CHR 0xE2, CHR 0x80, CHR 0x85],
      [CHR 0xE2, CHR 0x80, CHR 0x86], [CHR 0xE2, CHR 0x80, CHR 0x87],
      [CHR 0xE2, CHR 0x80, CHR 0x88], [CHR 0xE2, CHR 0x80, CHR 0x89],
      [CHR 0xE2, CHR 0x80, CHR 0x8A], [CHR 0xE2, CHR 0x80, CHR 0xA8],
      [CHR 0xE2, CHR 0x80, CHR 0xA9], [CHR 0xE2, CHR 0x80, CHR 0xAF],
      [CHR 0xE2, CHR 0x81, CHR 0x9F], [CHR 0xE3, CHR 0x80, CHR 0x80]]"

text \<open>The number of bytes of the white-space rune at the head (at the end) of a string,
  0 when there is none.\<close>

definition spaceWidth :: "string \<Rightarrow> nat" where
  "spaceWidth s =
     (case s of
        [] \<Rightarrow> 0
      | c # cs \<Rightarrow>
          if isASCII c then (if c \<in> set asciiSpace then 1 else 0)
          else (case filter (HasPrefix s) unicodeSpace of [] \<Rightarrow> 0 | p # ps \<Rightarrow> length p))"

definition spaceWidthEnd :: "string \<Rightarrow> nat" where
  "spaceWidthEnd s =
     (if s = [] then 0
      else if isASCII (last s) then (if last s \<in> set asciiSpace then 1 else 0)
      else (case filter (HasSuffix s) unicodeSpace of [] \<Rightarrow> 0 | p # ps \<Rightarrow> length p))"

text \<open>\<open>strings.Fields\<close>: the maximal runs of bytes between white-space runes.\<close>

fun Fields :: "string \<Rightarrow> string list" where
  "Fields [] = []"
| "Fields (c # cs) =
     (if 0 < spaceWidth (c # cs) then Fields (drop (spaceWidth (c # cs) - 1) cs)
      else if cs = [] \<or> 0 < spaceWidth cs then [c] # Fields cs
      else (case Fields cs of [] \<Rightarrow> [[c]] | field # fields \<Rightarrow> (c # field) # fields))"

fun trimLeft :: "string \<Rightarrow> string" where
  "trimLeft [] = []"
| "trimLeft (c # cs) =
     (if 0 < spaceWidth (c # cs) then trimLeft (drop (spaceWidth (c # cs) - 1) cs)
      else c # cs)"

function trimRight :: "string \<Rightarrow> string" where
  "trimRight s =
     (if 0 < spaceWidthEnd s \<and> s \<noteq> [] then trimRight (take (length s - spaceWidthEnd s) s)
      else s)"
  by pat_completeness auto
termination
  by (relation "measure length") auto

definition TrimSpace :: "string \<Rightarrow> string" where
  "TrimSpace s = trimRight (trimLeft s)"


text \<open>
  \<open>strings.ToLower\<close> has two paths. A string of ASCII bytes only has its letters A to Z
  lowered byte by byte. Any other string goes through \<open>unicode.ToLower\<close> rune by rune,
  which needs the Unicode case tables: that path is the parameter \<open>lowerUnicode\<close> of the
  library record below.
\<close>

definition upperLetters :: string where
  "upperLetters = ''ABCDEFGHIJKLMNOPQRSTUVWXYZ''"

definition lowerLetters :: string where
  "lowerLetters = ''abcdefghijklmnopqrstuvwxyz''"

definition lowerByte :: "char \<Rightarrow> char" where
  "lowerByte c = (case map_of (zip upperLetters lowerLetters) c of None \<Rightarrow> c | Some l \<Rightarrow> l)"

text \<open>The regular-expression class \<open>\w\<close>: digits, ASCII letters and the underscore.\<close>

definition wordChar :: "char \<Rightarrow> bool" where
  "wordChar c =
     (let n = (of_char c :: int)
      in (48 \<le> n \<and> n \<le> 57) \<or> (65 \<le> n \<and> n \<le> 90) \<or> (97 \<le> n \<and> n \<le> 122) \<or> n = 95)"

text \<open>The regular-expression dot: every character but the newline.\<close>

definition anyChar :: "char \<Rightarrow> bool" where
  "anyChar c = (c \<noteq> newline)"

subsection \<open>float64 and semantic versions\<close>

text \<open>
  A \<open>float64\<close> is a finite value (a rational) or one of the three special values. The
  order is that of IEEE 754: NaN is neither below nor above anything.
\<close>

datatype float64 = Finite rat | PosInf | NegInf | NaN

fun floatLess :: "float64 \<Rightarrow> float64 \<Rightarrow> bool" where
  "floatLess (Finite a) (Finite b) = (a < b)"
| "floatLess (Finite a) PosInf = True"
| "floatLess NegInf (Finite b) = True"
| "floatLess NegInf PosInf = True"
| "floatLess a b = False"

text \<open>
  A version of \<open>github.com/blang/semver\<close>: three numbers, the pre-release identifiers
  (numeric or alphanumeric) and the build tags. \<open>semverLT\<close> is the library's \<open>LT\<close>
  (\<open>Compare\<close> below zero): the numbers in order, then a version without pre-release
  above one with, then the identifiers one by one, a number below a word.
\<close>

datatype PRVersion = PRNum int | PRStr string

record SemVersion =
  Major :: int
  Minor :: int
  Patch :: int
  Pre :: "PRVersion list"
  Build :: "string list"

fun stringLess :: "string \<Rightarrow> string \<Rightarrow> bool" where
  "stringLess [] [] = False"
| "stringLess [] (b # bs) = True"
| "stringLess (a # as) [] = False"
| "stringLess (a # as) (b # bs) =
     ((of_char a :: int) < of_char b \<or> (a = b \<and> stringLess as bs))"

fun prCompare :: "PRVersion \<Rightarrow> PRVersion \<Rightarrow> int" where
  "prCompare (PRNum a) (PRNum b) = (if a = b then 0 else if a > b then 1 else -1)"
| "prCompare (PRNum a) (PRStr b) = -1"
| "prCompare (PRStr a) (PRNum b) = 1"
| "prCompare (PRStr a) (PRStr b) = (if a = b then 0 else if stringLess b a then 1 else -1)"

fun preCompare :: "PRVersion list \<Rightarrow> PRVersion list \<Rightarrow> int" where
  "preCompare [] [] = 0"
| "preCompare [] (b # bs) = -1"
| "preCompare (a # as) [] = 1"
| "preCompare (a # as) (b # bs) = (if prCompare a b = 0 then preCompare as bs else prCompare a b)"

definition semverCompare :: "SemVersion \<Rightarrow> SemVersion \<Rightarrow> int" where
  "semverCompare v o' =
     (if Major v \<noteq> Major o' then (if Major v > Major o' then 1 else -1)
      else if Minor v \<noteq> Minor o' then (if Minor v > Minor o' then 1 else -1)
      else if Patch v \<noteq> Patch o' then (if Patch v > Patch o' then 1 else -1)
      else if Pre v = [] \<and> Pre o' = [] then 0
      else if Pre v = [] then 1
      else if Pre o' = [] then -1
      else preCompare (Pre v) (Pre o'))"

definition semverLT :: "SemVersion \<Rightarrow> SemVersion \<Rightarrow> bool" where
  "semverLT v o' = (semverCompare v o' = -1)"

section \<open>Data of the two programs\<close>

text \<open>
  The repository holds two programs: the library \<open>smart\<close> with its Prometheus collector
  (\<open>Collect\<close>), and the older stand-alone program of package \<open>main\<close>, which prints its
  metrics itself. Both are modelled. Label maps are maps from label name to label value.
\<close>

type_synonym labels = "string \<rightharpoonup> string"

text \<open>Package \<open>smart\<close>: \<open>Device\<close> and \<open>DeviceInfo\<close>.\<close>

record Device =
  Name :: string
  InfoName :: string
  Type :: string
  Protocol :: string

record DeviceInfo =
  Available :: bool
  Enabled :: bool
  Healthy :: bool
  Attributes :: labels

text \<open>
  The Prometheus client: a description as \<open>NewDesc\<close> builds it (name, help, variable label
  names, constant labels), and a constant metric as \<open>MustNewConstMetric\<close> builds it (the
  description, the gauge value and the values of the variable labels).
\<close>

record PromDesc =
  fqName :: string
  helpText :: string
  variableLabels :: "string list"
  constLabels :: labels

record ConstMetric =
  desc :: PromDesc
  gaugeValue :: float64
  labelValues :: "string list"

text \<open>Package \<open>main\<close>: \<open>MetricDesc\<close> and \<open>Metric\<close> (the field \<open>Desc.Name\<close> is \<open>DescName\<close>).\<close>

record MetricDesc =
  DescName :: string
  DescHelp :: string
  DescType :: string
  ConstLabels :: labels

record Metric =
  Desc :: MetricDesc
  Value :: string
  Labels :: labels

subsection \<open>The libraries and the outside world as parameters\<close>

text \<open>
  What the exporter calls and the repository does not contain is a parameter:
  \<^item> \<open>parseFloat\<close> is \<open>strconv.ParseFloat(s, 64)\<close>, the error text or the value;
  \<^item> \<open>lowerUnicode\<close> is \<open>strings.ToLower\<close> on strings with a byte outside ASCII;
  \<^item> \<open>semverParse\<close> and \<open>semverParseTolerant\<close> are \<open>semver.Parse\<close> and
    \<open>semver.ParseTolerant\<close>;
  \<^item> \<open>unmarshalObject\<close> is \<open>json.Unmarshal\<close> into a map from key to raw message (a
    \<open>null\<close> gives the key a nil pointer, here \<open>None\<close>), \<open>unmarshalDevices\<close> is
    \<open>json.Unmarshal\<close> into a slice of \<open>Device\<close>;
  \<^item> \<open>constMetricError\<close> is the check of \<open>MustNewConstMetric\<close>, which panics with the
    error text when the description or a label value is not valid.
\<close>

record golib =
  parseFloat :: "string \<Rightarrow> string + float64"
  lowerUnicode :: "string \<Rightarrow> string"
  semverParse :: "string \<Rightarrow> string + SemVersion"
  semverParseTolerant :: "string \<Rightarrow> string + SemVersion"
  unmarshalObject :: "string \<Rightarrow> string + (string \<times> string option) list"
  unmarshalDevices :: "string \<Rightarrow> string + Device list"
  constMetricError :: "ConstMetric \<Rightarrow> string option"

text \<open>
  The world outside the process:
  \<^item> \<open>runCmd\<close> is \<open>exec.Command("smartctl", opts...).CombinedOutput()\<close>: given the
    commands issued so far in this pass and the options, the error text or the output. The
    history as argument lets the answer to the same command change during a pass;
  \<^item> \<open>unixNow\<close> is \<open>time.Now().Unix()\<close>, given the same history;
  \<^item> \<open>geteuid\<close> is \<open>os.Geteuid()\<close>; \<open>lookPath\<close> is the error of
    \<open>exec.LookPath("smartctl")\<close>, \<open>None\<close> when the binary is found;
  \<^item> \<open>rangeOrder\<close> is the order in which \<open>range\<close> visits the entries of the device map
    of package \<open>main\<close> (Go leaves it unspecified).
\<close>

record world =
  runCmd :: "string list list \<Rightarrow> string list \<Rightarrow> string + string"
  unixNow :: "string list list \<Rightarrow> int"
  geteuid :: int
  lookPath :: "string option"
  rangeOrder :: "(string \<times> string) list \<Rightarrow> (string \<times> string) list"

definition ToLower :: "golib \<Rightarrow> string \<Rightarrow> string" where
  "ToLower L s = (if list_all isASCII s then map lowerByte s else lowerUnicode L s)"

section \<open>Effects: commands issued, measurements emitted, panics\<close>

text \<open>
  A run ends with a value, with a panic, or (package \<open>main\<close>) with \<open>os.Exit\<close>. The
  trace records, in order, the option lists of the \<open>smartctl\<close> commands issued, the
  measurements sent to the channel (package \<open>smart\<close>) or printed (package \<open>main\<close>), and
  the log lines.
\<close>

datatype 'a result = Ok 'a | Panic string | Exit nat

record 'm trace =
  issued :: "string list list"
  emitted :: "'m list"
  logged :: "string list"

type_synonym ('m, 'a) prog = "'m trace \<Rightarrow> 'a result \<times> 'm trace"

definition ret :: "'a \<Rightarrow> ('m, 'a) prog" where
  "ret a s = (Ok a, s)"

definition panic :: "string \<Rightarrow> ('m, 'a) prog" where
  "panic msg s = (Panic msg, s)"

definition lift :: "'a result \<Rightarrow> ('m, 'a) prog" where
  "lift r s = (r, s)"

definition andThen :: "('m, 'a) prog \<Rightarrow> ('a \<Rightarrow> ('m, 'b) prog) \<Rightarrow> ('m, 'b) prog" where
  "andThen m f s =
     (case m s of
        (Ok a, s') \<Rightarrow> f a s'
      | (Panic msg, s') \<Rightarrow> (Panic msg, s')
      | (Exit code, s') \<Rightarrow> (Exit code, s'))"

definition execSmartctl :: "world \<Rightarrow> string list \<Rightarrow> ('m, string + string) prog" where
  "execSmartctl W opts s = (Ok (runCmd W (issued s) opts), s\<lparr>issued := issued s @ [opts]\<rparr>)"

definition emit :: "'m \<Rightarrow> ('m, unit) prog" where
  "emit m s = (Ok (), s\<lparr>emitted := emitted s @ [m]\<rparr>)"

definition logInfo :: "string \<Rightarrow> ('m, unit) prog" where
  "logInfo msg s = (Ok (), s\<lparr>logged := logged s @ [msg]\<rparr>)"

text \<open>Indexing a slice panics out of range.\<close>

definition index :: "'a list \<Rightarrow> nat \<Rightarrow> 'a result" where
  "index xs i = (if i < length xs then Ok (xs ! i) else Panic ''index out of range'')"

subsection \<open>\<open>firstLine\<close>\<close>

text \<open>
  \<open>bufio.Scanner\<close> with the default split function \<open>ScanLines\<close> and the default buffer:
  the first call of \<open>Scan\<close> fails on the empty input, and on a first line that does not
  end within the first \<open>MaxScanTokenSize\<close> bytes; else the token is the first line without
  its newline and without one trailing carriage return.
\<close>

definition MaxScanTokenSize :: int where
  "MaxScanTokenSize = 64 * 1024"

definition dropCR :: "string \<Rightarrow> string" where
  "dropCR l = (if l \<noteq> [] \<and> last l = CHR 0x0D then butlast l else l)"

definition firstLine :: "string \<Rightarrow> string result" where
  "firstLine text' =
     (let l = takeWhile (\<lambda>c. c \<noteq> newline) text'
      in if text' = [] \<or> MaxScanTokenSize \<le> int (length l) then Panic ''Unable to read first line''
         else Ok (dropCR l))"


section \<open>Package \<open>smart\<close>\<close>

definition smartMonMinVersion :: string where
  "smartMonMinVersion = ''6.6.0''"


definition smartctlVersionOpts :: "string list" where
  "smartctlVersionOpts = [''-V'']"



definition smartctlDeviceInfoOpts :: "string list" where
  "smartctlDeviceInfoOpts = [''-i'', ''-H'']"



subsection \<open>The two regular expressions\<close>





text \<open>
  \<open>smartctlInfoRegex\<close> is \<open>^([^:]+): (.+)$\<close>: the first group cannot cross a colon, so it
  is the text before the first colon; the second group is the rest of the text after the
  colon and the space, and it holds no newline. The result is the two groups.
\<close>

definition smartctlInfoRegex :: "string \<Rightarrow> (string \<times> string) option" where
  "smartctlInfoRegex line =
     (let name = takeWhile (\<lambda>c. c \<noteq> CHR '':'') line;
          rest = dropWhile (\<lambda>c. c \<noteq> CHR '':'') line;
          val = drop 2 rest
      in if name \<noteq> [] \<and> HasPrefix rest '': '' \<and> val \<noteq> [] \<and> list_all anyChar val
         then Some (name, val) else None)"

subsection \<open>Running \<open>smartctl\<close>, the version, the device scan\<close>

text \<open>
  A Go function returning \<open>(T, error)\<close> returns a pair here: the value (the zero value
  the source returns beside an error) and the error text, \<open>None\<close> for nil.
\<close>

definition smartCtl :: "world \<Rightarrow> string list \<Rightarrow> ('m, string \<times> string option) prog" where
  "smartCtl W opts =
     andThen (execSmartctl W opts) (\<lambda>r.
       case r of
         Inl e \<Rightarrow> ret ([], Some (''Failed to execute command: '' @ e))
       | Inr output \<Rightarrow> ret (output, None))"

definition Version :: "world \<Rightarrow> ('m, string \<times> string option) prog" where
  "Version W =
     andThen (smartCtl W smartctlVersionOpts) (\<lambda>(output, err).
       case err of
         Some e \<Rightarrow> ret ([], Some e)
       | None \<Rightarrow>
           andThen (lift (firstLine output)) (\<lambda>line.
           andThen (lift (index (Fields line) 1)) (\<lambda>v. ret (v, None))))"



text \<open>The decimal digits of a number that is not negative.\<close>

function FormatUint :: "int \<Rightarrow> string" where
  "FormatUint n =
     (if n < 10 then [''0123456789'' ! nat n]
      else FormatUint (n div 10) @ [''0123456789'' ! nat (n mod 10)])"
  by pat_completeness auto
termination
  by (relation "measure nat") auto

fun joinWith :: "string \<Rightarrow> string list \<Rightarrow> string" where
  "joinWith sep [] = []"
| "joinWith sep [x] = x"
| "joinWith sep (x # y # ys) = x @ sep @ joinWith sep (y # ys)"

fun prString :: "PRVersion \<Rightarrow> string" where
  "prString (PRNum n) = FormatUint n"
| "prString (PRStr s) = s"

definition semverString :: "SemVersion \<Rightarrow> string" where
  "semverString v =
     FormatUint (Major v) @ ''.'' @ FormatUint (Minor v) @ ''.'' @ FormatUint (Patch v)
     @ (if Pre v = [] then [] else ''-'' @ joinWith ''.'' (map prString (Pre v)))
     @ (if Build v = [] then [] else ''+'' @ joinWith ''.'' (Build v))"

definition MustParse :: "golib \<Rightarrow> string \<Rightarrow> SemVersion result" where
  "MustParse L s =
     (case semverParse L s of
        Inl e \<Rightarrow> Panic (''semver: Parse('' @ s @ ''): '' @ e)
      | Inr v \<Rightarrow> Ok v)"

definition CheckSupportedVersion :: "golib \<Rightarrow> world \<Rightarrow> ('m, string option) prog" where
  "CheckSupportedVersion L W =
     andThen (lift (MustParse L smartMonMinVersion)) (\<lambda>minVer.
     andThen (Version W) (\<lambda>(foundVer, err).
       case err of
         Some e \<Rightarrow> ret (Some (''Unable to determine installed smartctl version:'' @ e))
       | None \<Rightarrow>
          (case semverParse L foundVer of
             Inl e \<Rightarrow> ret (Some (''Unable to parse installed smartctl version:'' @ e))
           | Inr installedVer \<Rightarrow>
               if semverLT installedVer minVer
               then ret (Some (''Installed smartctl version '' @ semverString installedVer
                               @ '' is lower than the required minimum '' @ semverString minVer))
               else ret None)))"



subsection \<open>The structured (JSON) mode\<close>










subsection \<open>The legacy (text) mode: active state and info\<close>


definition sanitizeLabelName :: "golib \<Rightarrow> string \<Rightarrow> string" where
  "sanitizeLabelName L name =
     (let name1 = ReplaceAll name (CHR '' '') (CHR ''_'');
          name2 = ReplaceAll name1 (CHR ''/'') (CHR ''_'');
          name3 = ReplaceAll name2 (CHR ''-'') (CHR ''_'');
          name4 = ReplaceAll name3 (CHR ''.'') (CHR ''_'')
      in ToLower L name4)"

text \<open>One round of the loop of \<open>info\<close> over the lines of the output.\<close>

definition infoLine :: "golib \<Rightarrow> string \<Rightarrow> DeviceInfo \<Rightarrow> DeviceInfo" where
  "infoLine L line info =
     (case smartctlInfoRegex line of
        None \<Rightarrow> info
      | Some (name, val) \<Rightarrow>
         (let info1 = info\<lparr>Attributes := (Attributes info)(sanitizeLabelName L name \<mapsto> TrimSpace val)\<rparr>
          in if HasPrefix name ''SMART support is'' then
               (if HasPrefix val ''Available'' then info1\<lparr>Available := True\<rparr>
                else if HasPrefix val ''Enabled'' then info1\<lparr>Enabled := True\<rparr>
                else info1)
             else if HasPrefix name ''SMART Health Status'' then
               (if HasPrefix val ''OK''
                then info1\<lparr>Healthy := True, Available := True, Enabled := True\<rparr>
                else info1)
             else if HasPrefix name ''SMART overall-health self-assessment test result'' then
               (if HasPrefix val ''PASSED''
                then info1\<lparr>Healthy := True, Available := True, Enabled := True\<rparr>
                else info1)
             else info1))"

fun infoLoop :: "golib \<Rightarrow> string list \<Rightarrow> DeviceInfo \<Rightarrow> DeviceInfo" where
  "infoLoop L [] info = info"
| "infoLoop L (line # lines) info = infoLoop L lines (infoLine L line info)"

definition info :: "golib \<Rightarrow> world \<Rightarrow> Device \<Rightarrow> ('m, DeviceInfo option \<times> string option) prog" where
  "info L W d =
     andThen (smartCtl W (smartctlDeviceInfoOpts @ [''-d'', Type d, Name d])) (\<lambda>(output, err).
       case err of
         Some e \<Rightarrow> ret (None, Some e)
       | None \<Rightarrow>
           ret (Some (infoLoop L (Split output newline)
                        \<lparr>Available = False, Enabled = False, Healthy = False,
                         Attributes = Map.empty\<rparr>), None))"


subsection \<open>The collector\<close>


definition noConstLabels :: labels where
  "noConstLabels = Map.empty"

definition NewDesc :: "string \<Rightarrow> string \<Rightarrow> string list \<Rightarrow> labels \<Rightarrow> PromDesc" where
  "NewDesc name helpStr variable const =
     \<lparr>fqName = name, helpText = helpStr, variableLabels = variable, constLabels = const\<rparr>"


definition smartMonRunDesc :: PromDesc where
  "smartMonRunDesc =
     NewDesc ''smartmon_smartctl_run'' ''contains current unix time'' [''disk'', ''type'']
       noConstLabels"


















section \<open>Package \<open>main\<close>\<close>




definition smartctlDeviceActiveOptsMain :: "string list" where
  "smartctlDeviceActiveOptsMain = [''-n'', ''standby'', ''-d'']"

definition smartctlDeviceInfoOptsMain :: "string list" where
  "smartctlDeviceInfoOptsMain = [''-i'', ''-H'', ''-d'']"

definition smartctlDeviceMetricOptsMain :: "string list" where
  "smartctlDeviceMetricOptsMain = [''-A'', ''-d'']"

subsection \<open>Metrics\<close>

definition NewHelpMetric :: "string \<Rightarrow> labels \<Rightarrow> string \<Rightarrow> string \<Rightarrow> Metric" where
  "NewHelpMetric name labels' val helpStr =
     \<lparr>Desc = \<lparr>DescName = name, DescHelp = ''SMART metric '' @ name, DescType = ''guage'',
              ConstLabels = Map.empty\<rparr>,
      Value = ''1'',
      Labels = labels'\<rparr>"

definition NewMetric :: "string \<Rightarrow> labels \<Rightarrow> string \<Rightarrow> Metric" where
  "NewMetric name labels' val = NewHelpMetric name labels' val (''SMART metric '' @ name)"

definition NewInfoMetric :: "string \<Rightarrow> string \<Rightarrow> Metric" where
  "NewInfoMetric name msg =
     NewHelpMetric name [''info'' \<mapsto> msg] ''1''
       ''Status information related to metric collection''"

text \<open>\<open>printMetric\<close> writes the metric to the standard output: here it joins the trace.\<close>

definition printMetric :: "Metric \<Rightarrow> (Metric, unit) prog" where
  "printMetric m = emit m"

fun printMetrics :: "Metric list \<Rightarrow> (Metric, unit) prog" where
  "printMetrics [] = ret ()"
| "printMetrics (metric # ms) = andThen (printMetric metric) (\<lambda>_. printMetrics ms)"

subsection \<open>Version and devices\<close>


definition runSmartCmd :: "world \<Rightarrow> string list \<Rightarrow> ('m, string) prog" where
  "runSmartCmd W opts =
     andThen (execSmartctl W opts) (\<lambda>r.
       case r of
         Inl e \<Rightarrow> panic (''Failed to execute command: '' @ e)
       | Inr output \<Rightarrow> ret output)"

definition smartMonVersion :: "world \<Rightarrow> ('m, string) prog" where
  "smartMonVersion W =
     andThen (runSmartCmd W smartctlVersionOpts) (\<lambda>output.
     andThen (lift (firstLine output)) (\<lambda>line.
     lift (index (Fields line) 1)))"

definition smartCtrlCheckVersion :: "golib \<Rightarrow> world \<Rightarrow> string \<Rightarrow> ('m, string option) prog" where
  "smartCtrlCheckVersion L W minVerString =
     (case parseFloat L minVerString of
        Inl e \<Rightarrow> ret (Some (''Unable to parse installed smartctl version:'' @ e))
      | Inr minVer \<Rightarrow>
          andThen (smartMonVersion W) (\<lambda>installedVerString.
            case parseFloat L installedVerString of
              Inl e \<Rightarrow> ret (Some (''Unable to parse installed smartctl version:'' @ e))
            | Inr installedVer \<Rightarrow>
                if floatLess installedVer minVer
                then ret (Some (''Installed smartctl version '' @ installedVerString
                                @ '' is lower than the required minimum '' @ minVerString))
                else ret None))"




definition FormatInt :: "int \<Rightarrow> string" where
  "FormatInt i = (if i < 0 then ''-'' @ FormatUint (- i) else FormatUint i)"

definition smartMonRunMetric :: "world \<Rightarrow> string \<Rightarrow> string \<Rightarrow> ('m, Metric) prog" where
  "smartMonRunMetric W dev devType s =
     (let unixTime = FormatInt (unixNow W (issued s))
      in (Ok \<lparr>Desc = \<lparr>DescName = ''smartctl_run'', DescHelp = ''contains current unix time'',
                      DescType = ''guage'', ConstLabels = Map.empty\<rparr>,
              Value = unixTime,
              Labels = [''disk'' \<mapsto> dev, ''type'' \<mapsto> devType]\<rparr>, s))"

definition smartMonDeviceActive :: "world \<Rightarrow> string \<Rightarrow> string \<Rightarrow> ('m, Metric) prog" where
  "smartMonDeviceActive W dev devType =
     andThen (execSmartctl W (smartctlDeviceActiveOptsMain @ [devType, dev])) (\<lambda>r.
       let active' = (case r of Inl e \<Rightarrow> ''0'' | Inr output \<Rightarrow> ''1'')
       in ret \<lparr>Desc = \<lparr>DescName = ''smartctl_run'',
                        DescHelp = ''shows result of smartctl -n standby'',
                        DescType = ''guage'', ConstLabels = Map.empty\<rparr>,
               Value = active',
               Labels = [''disk'' \<mapsto> dev, ''type'' \<mapsto> devType]\<rparr>)"

subsection \<open>Info and attributes\<close>

text \<open>
  The loop of \<open>smartMonInfoMetrics\<close> carries \<open>smartAvailable\<close>, \<open>smartEnabled\<close>,
  \<open>smartHealthy\<close> and the map \<open>smartInfo\<close>.
\<close>

definition smartInfoLine ::
  "string \<Rightarrow> string \<times> string \<times> string \<times> labels \<Rightarrow> string \<times> string \<times> string \<times> labels" where
  "smartInfoLine line st =
     (case st of (smartAvailable, smartEnabled, smartHealthy, smartInfo) \<Rightarrow>
       (case smartctlInfoRegex line of
          None \<Rightarrow> st
        | Some (name, val) \<Rightarrow>
           (let smartInfo1 = smartInfo(name \<mapsto> TrimSpace val)
            in if HasPrefix name ''SMART support is'' then
                 (if HasPrefix val ''Available''
                  then (''1'', smartEnabled, smartHealthy, smartInfo1)
                  else if HasPrefix val ''Enabled''
                  then (smartAvailable, ''1'', smartHealthy, smartInfo1)
                  else (smartAvailable, smartEnabled, smartHealthy, smartInfo1))
               else if HasPrefix name ''SMART Health Status'' then
                 (if HasPrefix val ''OK''
                  then (smartAvailable, smartEnabled, ''1'', smartInfo1)
                  else (smartAvailable, smartEnabled, smartHealthy, smartInfo1))
               else if HasPrefix name ''SMART overall-health self-assessment test result'' then
                 (if HasPrefix val ''Passed''
                  then (smartAvailable, smartEnabled, ''1'', smartInfo1)
                  else (smartAvailable, smartEnabled, smartHealthy, smartInfo1))
               else (smartAvailable, smartEnabled, smartHealthy, smartInfo1))))"

fun smartInfoLoop ::
  "string list \<Rightarrow> string \<times> string \<times> string \<times> labels \<Rightarrow> string \<times> string \<times> string \<times> labels" where
  "smartInfoLoop [] st = st"
| "smartInfoLoop (line # lines) st = smartInfoLoop lines (smartInfoLine line st)"

text \<open>Reading a key that a Go map does not hold gives the empty string.\<close>

definition mapGet :: "labels \<Rightarrow> string \<Rightarrow> string" where
  "mapGet m k = (case m k of None \<Rightarrow> [] | Some v \<Rightarrow> v)"

definition smartMonInfoLabels :: "labels \<Rightarrow> labels \<Rightarrow> labels" where
  "smartMonInfoLabels labels' smartInfo =
     [''vendor'' \<mapsto> mapGet smartInfo ''Vendor'',
      ''product'' \<mapsto> mapGet smartInfo ''Product'',
      ''revision'' \<mapsto> mapGet smartInfo ''Revision'',
      ''lun_id'' \<mapsto> mapGet smartInfo ''Logical Unit id'',
      ''model_family'' \<mapsto> mapGet smartInfo ''Model Family'',
      ''device_model'' \<mapsto> mapGet smartInfo ''Device Model'',
      ''serial_number'' \<mapsto> mapGet smartInfo ''Serial Number'',
      ''firmware_version'' \<mapsto> mapGet smartInfo ''Firmware Version''] ++ labels'"

definition smartMonInfoMetrics :: "world \<Rightarrow> string \<Rightarrow> string \<Rightarrow> ('m, Metric list) prog" where
  "smartMonInfoMetrics W dev devType =
     andThen (runSmartCmd W (smartctlDeviceInfoOptsMain @ [devType, dev])) (\<lambda>output.
       case smartInfoLoop (Split output newline) (''0'', ''0'', ''0'', Map.empty) of
         (smartAvailable, smartEnabled, smartHealthy, smartInfo) \<Rightarrow>
           (let commonLabels = [''disk'' \<mapsto> dev, ''type'' \<mapsto> devType];
                infoLabels = smartMonInfoLabels commonLabels smartInfo
            in ret [NewMetric ''smartmon_device_info'' infoLabels ''1'',
                    NewMetric ''smartmon_device_smart_available'' commonLabels smartAvailable,
                    NewMetric ''smartmon_device_smart_enabled'' commonLabels smartEnabled,
                    NewMetric ''smartmon_device_smart_healthy'' commonLabels smartHealthy]))"

text \<open>The loop of \<open>smartMonDeviceSatAttributes\<close> over the lines of the output.\<close>

fun satAttrLoop :: "golib \<Rightarrow> labels \<Rightarrow> string list \<Rightarrow> Metric list \<Rightarrow> Metric list" where
  "satAttrLoop L commonLabels [] attrMetrics = attrMetrics"
| "satAttrLoop L commonLabels (line # lines) attrMetrics =
     (let fields = Fields line
      in if length fields < 10 then satAttrLoop L commonLabels lines attrMetrics
         else
          (let labels' = commonLabels(''smart_id'' \<mapsto> fields ! 0);
               lowered = ToLower L (fields ! 1)
           in satAttrLoop L commonLabels lines
                (attrMetrics @
                 [NewMetric (''smartmon_'' @ lowered @ ''_value'') labels' (fields ! 3),
                  NewMetric (''smartmon_'' @ lowered @ ''_worst'') labels' (fields ! 4),
                  NewMetric (''smartmon_'' @ lowered @ ''_threshold'') labels' (fields ! 5),
                  NewMetric (''smartmon_'' @ lowered @ ''_raw_value'') labels' (fields ! 9)])))"

definition smartMonDeviceSatAttributes ::
  "golib \<Rightarrow> world \<Rightarrow> string \<Rightarrow> string \<Rightarrow> ('m, Metric list) prog" where
  "smartMonDeviceSatAttributes L W device devType =
     andThen (runSmartCmd W (smartctlDeviceMetricOptsMain @ [devType, device])) (\<lambda>output.
       if length output < 1 then panic ''slice bounds out of range''
       else ret (satAttrLoop L [''disk'' \<mapsto> device, ''type'' \<mapsto> devType]
                   (Split (drop 1 output) newline) []))"

definition smartMonDeviceAttributes ::
  "golib \<Rightarrow> world \<Rightarrow> string \<Rightarrow> string \<Rightarrow> ('m, Metric list) prog" where
  "smartMonDeviceAttributes L W device devType =
     (if HasPrefix devType ''sat'' then smartMonDeviceSatAttributes L W device devType
      else ret [NewMetric ''smartmon_info'' [''disk'' \<mapsto> device]
                  (''type is not sat, scsi or megaraid but '' @ devType)])"

subsection \<open>The pass of \<open>main\<close>\<close>

definition exit :: "nat \<Rightarrow> ('m, 'a) prog" where
  "exit code s = (Exit code, s)"

definition must :: "string option \<Rightarrow> string \<Rightarrow> (Metric, unit) prog" where
  "must err msg =
     (case err of
        None \<Rightarrow> ret ()
      | Some e \<Rightarrow>
          andThen (printMetric (NewInfoMetric ''smartmon_collector_error'' (msg @ '':'' @ e)))
            (\<lambda>_. exit 1))"

text \<open>One round of the loop of \<open>main\<close> over the device map, and the loop.\<close>

definition mainDevice :: "golib \<Rightarrow> world \<Rightarrow> string \<Rightarrow> string \<Rightarrow> (Metric, unit) prog" where
  "mainDevice L W dev devType =
     andThen (smartMonRunMetric W dev devType) (\<lambda>runMetric.
     andThen (printMetric runMetric) (\<lambda>_.
     andThen (smartMonDeviceActive W dev devType) (\<lambda>activeMetric.
     andThen (printMetric activeMetric) (\<lambda>_.
       if Value activeMetric = ''1'' then
         andThen (smartMonInfoMetrics W dev devType) (\<lambda>infoMetrics.
         andThen (printMetrics infoMetrics) (\<lambda>_.
         andThen (smartMonDeviceAttributes L W dev devType) (\<lambda>attrMetrics.
         printMetrics attrMetrics)))
       else ret ()))))"




section \<open>An instance of the libraries, for evaluation\<close>

text \<open>
  The theorems below hold for every library record. To run the programs on concrete
  inputs, \<open>goLib\<close> fills the record with what Go computes on the inputs used in this
  theory: decimal numerals, ASCII text, and versions written with digits and dots.
\<close>

subsection \<open>Decimal numerals as \<open>float64\<close>\<close>

definition isDigit :: "char \<Rightarrow> bool" where
  "isDigit c = (48 \<le> (of_char c :: int) \<and> (of_char c :: int) \<le> 57)"

fun digitsValue :: "string \<Rightarrow> int \<Rightarrow> int" where
  "digitsValue [] acc = acc"
| "digitsValue (c # cs) acc = digitsValue cs (10 * acc + (of_char c - 48))"

definition pow2 :: "int \<Rightarrow> rat" where
  "pow2 i = (if 0 \<le> i then of_int (2 ^ nat i) else 1 / of_int (2 ^ nat (- i)))"

text \<open>\<open>binade k a 0\<close> is the exponent \<open>e\<close> with \<open>2^e \<le> a < 2^(e+1)\<close>, for a positive \<open>a\<close>
  and enough rounds \<open>k\<close>.\<close>

fun binade :: "nat \<Rightarrow> rat \<Rightarrow> int \<Rightarrow> int" where
  "binade 0 a e = e"
| "binade (Suc k) a e =
     (if 2 \<le> a then binade k (a / 2) (e + 1)
      else if a < 1 then binade k (a * 2) (e - 1)
      else e)"

definition roundHalfEven :: "rat \<Rightarrow> int" where
  "roundHalfEven x =
     (let f = \<lfloor>x\<rfloor>; r = x - of_int f
      in if r < 1 / 2 then f else if 1 / 2 < r then f + 1 else if even f then f else f + 1)"

text \<open>
  The float64 nearest to a positive rational (ties to even): 53 bits of mantissa, the
  smallest exponent \<open>-1022\<close>, and \<open>None\<close> when the result is beyond the largest float
  (the rounded value reaches \<open>2^1024\<close>).
\<close>

definition nearestFloat64 :: "nat \<Rightarrow> rat \<Rightarrow> rat option" where
  "nearestFloat64 k a =
     (let e = max (binade k a 0) (- 1022);
          ulp = pow2 (e - 52);
          n = roundHalfEven (a / ulp)
      in if 1024 \<le> e \<or> (e = 1023 \<and> n = 2 ^ 53) then None else Some (of_int n * ulp))"

text \<open>
  \<open>parseDecimal\<close> is \<open>strconv.ParseFloat(s, 64)\<close> on a string that is an optional sign,
  digits, and an optional point with digits. The other forms that Go reads (an exponent,
  hexadecimal, underscores, infinities and NaN) are not evaluated in this theory, and the
  instance answers them with the syntax error as it does for text that is no number.
\<close>

definition parseDecimal :: "string \<Rightarrow> string + float64" where
  "parseDecimal s =
     (let negative = (take 1 s = ''-'');
          body = (if take 1 s = ''-'' \<or> take 1 s = ''+'' then drop 1 s else s);
          intPart = takeWhile isDigit body;
          afterInt = dropWhile isDigit body;
          fracPart = (if take 1 afterInt = ''.'' then takeWhile isDigit (drop 1 afterInt) else []);
          rest = (if take 1 afterInt = ''.'' then dropWhile isDigit (drop 1 afterInt)
                  else afterInt);
          a = of_int (digitsValue (intPart @ fracPart) 0) / 10 ^ length fracPart
      in if rest \<noteq> [] \<or> intPart @ fracPart = []
         then Inl (''strconv.ParseFloat: parsing '' @ [CHR 0x22] @ s @ [CHR 0x22]
                   @ '': invalid syntax'')
         else if a = 0 then Inr (Finite 0)
         else case nearestFloat64 (4 * length s + 4) a of
                None \<Rightarrow> Inl (''strconv.ParseFloat: parsing '' @ [CHR 0x22] @ s @ [CHR 0x22]
                              @ '': value out of range'')
              | Some v \<Rightarrow> Inr (Finite (if negative then - v else v)))"

subsection \<open>\<open>semver.Parse\<close> and \<open>semver.ParseTolerant\<close>\<close>

text \<open>
  The two parsers of \<open>github.com/blang/semver\<close>, with its error texts shortened.
  \<open>SplitN3\<close> is \<open>strings.SplitN(s, ".", 3)\<close>.
\<close>

definition SplitN3 :: "string \<Rightarrow> string list" where
  "SplitN3 s =
     (let parts = Split s (CHR ''.'')
      in if length parts \<le> 3 then parts
         else [parts ! 0, parts ! 1, joinWith ''.'' (drop 2 parts)])"

definition hasLeadingZeroes :: "string \<Rightarrow> bool" where
  "hasLeadingZeroes s = (1 < length s \<and> take 1 s = ''0'')"

definition semverNumber :: "string \<Rightarrow> string \<Rightarrow> string + int" where
  "semverNumber what s =
     (if \<not> list_all isDigit s then Inl (''Invalid character(s) found in '' @ what @ '' number'')
      else if hasLeadingZeroes s then Inl (what @ '' number must not contain leading zeroes'')
      else if s = [] then Inl ''strconv.ParseUint: invalid syntax''
      else if 2 ^ 64 \<le> digitsValue s 0 then Inl ''strconv.ParseUint: value out of range''
      else Inr (digitsValue s 0))"

definition isAlphanum :: "char \<Rightarrow> bool" where
  "isAlphanum c = (wordChar c \<and> c \<noteq> CHR ''_'' \<or> c = CHR ''-'')"

definition NewPRVersion :: "string \<Rightarrow> string + PRVersion" where
  "NewPRVersion s =
     (if s = [] then Inl ''Prerelease is empty''
      else if list_all isDigit s then
        (case semverNumber ''Numeric PreRelease version'' s of
           Inl e \<Rightarrow> Inl e
         | Inr n \<Rightarrow> Inr (PRNum n))
      else if list_all isAlphanum s then Inr (PRStr s)
      else Inl ''Invalid character(s) found in prerelease'')"

fun parsePre :: "string list \<Rightarrow> string + PRVersion list" where
  "parsePre [] = Inr []"
| "parsePre (p # ps) =
     (case NewPRVersion p of
        Inl e \<Rightarrow> Inl e
      | Inr v \<Rightarrow> (case parsePre ps of Inl e \<Rightarrow> Inl e | Inr vs \<Rightarrow> Inr (v # vs)))"

fun parseBuild :: "string list \<Rightarrow> string + string list" where
  "parseBuild [] = Inr []"
| "parseBuild (b # bs) =
     (if b = [] then Inl ''Build meta data is empty''
      else if \<not> list_all isAlphanum b then Inl ''Invalid character(s) found in build meta data''
      else (case parseBuild bs of Inl e \<Rightarrow> Inl e | Inr vs \<Rightarrow> Inr (b # vs)))"

definition semverParseGo :: "string \<Rightarrow> string + SemVersion" where
  "semverParseGo s =
     (if s = [] then Inl ''Version string empty''
      else
       (let parts = SplitN3 s
        in if length parts \<noteq> 3 then Inl ''No Major.Minor.Patch elements found''
           else
            (case semverNumber ''major'' (parts ! 0) of
               Inl e \<Rightarrow> Inl e
             | Inr major \<Rightarrow>
                (case semverNumber ''minor'' (parts ! 1) of
                   Inl e \<Rightarrow> Inl e
                 | Inr minor \<Rightarrow>
                    (let p0 = parts ! 2;
                         hasBuild = (CHR ''+'' \<in> set p0);
                         build = (if hasBuild
                                  then Split (drop 1 (dropWhile (\<lambda>c. c \<noteq> CHR ''+'') p0)) (CHR ''.'')
                                  else []);
                         p1 = (if hasBuild then takeWhile (\<lambda>c. c \<noteq> CHR ''+'') p0 else p0);
                         hasPre = (CHR ''-'' \<in> set p1);
                         prerelease = (if hasPre
                                       then Split (drop 1 (dropWhile (\<lambda>c. c \<noteq> CHR ''-'') p1))
                                              (CHR ''.'')
                                       else []);
                         patchStr = (if hasPre then takeWhile (\<lambda>c. c \<noteq> CHR ''-'') p1 else p1)
                     in (case semverNumber ''patch'' patchStr of
                           Inl e \<Rightarrow> Inl e
                         | Inr patch \<Rightarrow>
                            (case parsePre prerelease of
                               Inl e \<Rightarrow> Inl e
                             | Inr pre \<Rightarrow>
                                (case parseBuild build of
                                   Inl e \<Rightarrow> Inl e
                                 | Inr bld \<Rightarrow>
                                     Inr \<lparr>Major = major, Minor = minor, Patch = patch,
                                          Pre = pre, Build = bld\<rparr>))))))))"

text \<open>\<open>ParseTolerant\<close> trims white space and a leading \<open>v\<close>, removes the leading zeros of
  each part, and fills a version of one or two parts with zeros.\<close>

definition trimZeros :: "string \<Rightarrow> string" where
  "trimZeros p =
     (if length p \<le> 1 then p
      else (let q = dropWhile (\<lambda>c. c = CHR ''0'') p
            in if q = [] \<or> \<not> isDigit (hd q) then ''0'' @ q else q))"

definition semverParseTolerantGo :: "string \<Rightarrow> string + SemVersion" where
  "semverParseTolerantGo s =
     (let s1 = TrimSpace s;
          s2 = (if take 1 s1 = ''v'' then drop 1 s1 else s1);
          parts = map trimZeros (SplitN3 s2)
      in if length parts < 3 then
           (if CHR ''+'' \<in> set (last parts) \<or> CHR ''-'' \<in> set (last parts)
            then Inl ''Short version cannot contain PreRelease/Build meta data''
            else semverParseGo (joinWith ''.'' (parts @ replicate (3 - length parts) ''0'')))
         else semverParseGo (joinWith ''.'' parts))"

text \<open>
  The instance. Its \<open>lowerUnicode\<close> lowers the ASCII letters only, its JSON decoders
  fail on every input, and its \<open>MustNewConstMetric\<close> accepts every metric: it stands for
  Go on ASCII text, on passes that decode no JSON (an installed version below 7.0.0), and
  for metrics that the Prometheus client accepts.
\<close>

definition goLib :: golib where
  "goLib =
     \<lparr>parseFloat = parseDecimal,
      lowerUnicode = map lowerByte,
      semverParse = semverParseGo,
      semverParseTolerant = semverParseTolerantGo,
      unmarshalObject = (\<lambda>data. Inl ''json: not decoded''),
      unmarshalDevices = (\<lambda>data. Inl ''json: not decoded''),
      constMetricError = (\<lambda>m. None)\<rparr>"

definition emptyTrace :: "'m trace" where
  "emptyTrace = \<lparr>issued = [], emitted = [], logged = []\<rparr>"


subsection \<open>Worlds for evaluation\<close>

text \<open>
  \<open>testWorld\<close> is a machine with one answer per kind of command: the version line that
  \<open>smartctl -V\<close> prints, the output of the device scan, whether the standby check of a
  device succeeds, and the outputs of the info and of the attribute command. The process
  runs as root, \<open>smartctl\<close> is on the path, and \<open>range\<close> visits the device map in the
  order of insertion.
\<close>

definition versionOutput :: "string \<Rightarrow> string" where
  "versionOutput v =
     ''smartctl '' @ v @ '' 2017-11-05 r4594 [x86_64-linux-4.19.0] (local build)\<newline>''
     @ ''Copyright (C) 2002-17, Bruce Allen, Christian Franke, www.smartmontools.org\<newline>''"

definition testWorld :: "string \<Rightarrow> string \<Rightarrow> bool \<Rightarrow> string \<Rightarrow> string \<Rightarrow> world" where
  "testWorld versionOut scanOut isActive infoOut attrOut =
     \<lparr>runCmd = (\<lambda>history opts.
        if opts = [''-V''] then Inr versionOut
        else if opts = [''--scan''] \<or> opts = [''--scan-open''] then Inr scanOut
        else if take 2 opts = [''-n'', ''standby'']
             then (if isActive then Inr [] else Inl ''exit status 2'')
        else if take 2 opts = [''-i'', ''-H''] then Inr infoOut
        else if take 1 opts = [''-A''] then Inr attrOut
        else Inl ''exit status 1''),
      unixNow = (\<lambda>history. 1566314980),
      geteuid = 0,
      lookPath = None,
      rangeOrder = (\<lambda>devices. devices)\<rparr>"

definition scanOutput :: string where
  "scanOutput = ''/dev/sda -d sat # /dev/sda [SAT], ATA device\<newline>''"

definition infoOutput :: string where
  "infoOutput =
     ''Device Model:     Samsung SSD 860\<newline>''
     @ ''SMART support is: Available - device has SMART capability.\<newline>''
     @ ''SMART support is: Enabled\<newline>''
     @ ''SMART overall-health self-assessment test result: PASSED\<newline>''"

definition attrHeader :: string where
  "attrHeader =
     ''ID# ATTRIBUTE_NAME          FLAG     VALUE WORST THRESH TYPE      UPDATED  WHEN_FAILED RAW_VALUE''"

definition attrRow1 :: string where
  "attrRow1 =
     ''  1 Raw_Read_Error_Rate     0x002f   200   199   051    Pre-fail  Always       -       7''"

definition attrRow2 :: string where
  "attrRow2 =
     ''  9 Power_On_Hours          0x0032   094   093   000    Old_age   Always       -       4711''"


text \<open>
  The outputs of the attribute command: \<open>attrOutputReal\<close> is laid out as \<open>smartctl -A\<close>
  prints it, with its banner and the header line of the table; \<open>attrOutputRows\<close> holds the
  two rows only.
\<close>

definition attrOutputReal :: string where
  "attrOutputReal =
     versionOutput ''6.6'' @ ''\<newline>''
     @ ''=== START OF READ SMART DATA SECTION ===\<newline>''
     @ ''SMART Attributes Data Structure revision number: 1\<newline>''
     @ ''Vendor Specific SMART Attributes with Thresholds:\<newline>''
     @ attrHeader @ ''\<newline>'' @ attrRow1 @ ''\<newline>'' @ attrRow2 @ ''\<newline>''"

definition attrOutputRows :: string where
  "attrOutputRows = ''\<newline>'' @ attrRow1 @ ''\<newline>'' @ attrRow2 @ ''\<newline>''"

definition sda :: Device where
  "sda = \<lparr>Name = ''/dev/sda'', InfoName = ''/dev/sda [SAT]'', Type = ''sat'',
          Protocol = ''ATA device''\<rparr>"

definition activeWorld :: world where
  "activeWorld = testWorld (versionOutput ''6.6'') scanOutput True infoOutput attrOutputRows"


definition realWorld :: world where
  "realWorld = testWorld (versionOutput ''6.6'') scanOutput True infoOutput attrOutputReal"

definition versionWorld :: "string \<Rightarrow> world" where
  "versionWorld versionOut = testWorld versionOut scanOutput True infoOutput attrOutputRows"

definition garbageWorld :: world where
  "garbageWorld =
     testWorld (versionOutput ''6.6'') (''garbage\<newline>'' @ scanOutput) True infoOutput
       attrOutputRows"

definition headerWorld :: world where
  "headerWorld =
     testWorld (versionOutput ''6.6'') scanOutput True infoOutput (''\<newline>'' @ attrHeader)"

definition healthOnlyWorld :: world where
  "healthOnlyWorld =
     testWorld (versionOutput ''6.6'') scanOutput True ''SMART Health Status: OK\<newline>''
       attrOutputRows"

section \<open>Notions used to state the properties\<close>





text \<open>
  The component-wise comparison of version strings, as the specification words it: the
  components are the numbers between the dots, compared in order as numbers, a missing
  component counting as zero.
\<close>

definition versionComponents :: "string \<Rightarrow> int list" where
  "versionComponents v = map (\<lambda>part. digitsValue part 0) (Split v (CHR ''.''))"

fun componentwiseAtLeast :: "int list \<Rightarrow> int list \<Rightarrow> bool" where
  "componentwiseAtLeast [] [] = True"
| "componentwiseAtLeast [] (b # bs) = (b = 0 \<and> componentwiseAtLeast [] bs)"
| "componentwiseAtLeast (a # as) [] = True"
| "componentwiseAtLeast (a # as) (b # bs) = (b < a \<or> (a = b \<and> componentwiseAtLeast as bs))"

text \<open>The name and the labels of a metric of package \<open>main\<close>: what tells two printed
  measurements apart.\<close>

definition metricKey :: "Metric \<Rightarrow> string \<times> labels" where
  "metricKey m = (DescName (Desc m), Labels m)"

text \<open>
  \<open>steps P m\<close>: whatever the trace before it, the program \<open>m\<close> only appends to the
  trace, and every command it issues satisfies \<open>P\<close>.
\<close>

definition steps :: "(string list \<Rightarrow> bool) \<Rightarrow> ('m, 'a) prog \<Rightarrow> bool" where
  "steps P m =
     (\<forall>s. \<exists>cmds ems logs.
        snd (m s) = s\<lparr>issued := issued s @ cmds, emitted := emitted s @ ems,
                        logged := logged s @ logs\<rparr>
        \<and> list_all P cmds)"






definition activeCommandMain :: "string \<Rightarrow> string \<Rightarrow> string list" where
  "activeCommandMain dev devType = smartctlDeviceActiveOptsMain @ [devType, dev]"


section \<open>Properties\<close>

text \<open>A byte is ASCII when its top bit is clear; evaluation uses this form.\<close>

lemma isASCII_code [code]: "isASCII c = (\<not> digit7 c)"
  by (cases c) (simp add: isASCII_def)


subsection \<open>The trace only grows\<close>

text \<open>
  Every function of the two programs only appends to the trace, and the commands it appends
  are among those below; this is what \<open>steps\<close> says, and it is proved function by function.
\<close>

lemma stepsI:
  "(\<And>s. \<exists>cmds ems logs.
        snd (m s) = s\<lparr>issued := issued s @ cmds, emitted := emitted s @ ems,
                        logged := logged s @ logs\<rparr> \<and> list_all P cmds) \<Longrightarrow> steps P m"
  by (simp add: steps_def)

lemma stepsD:
  "steps P m \<Longrightarrow> \<exists>cmds ems logs.
        snd (m s) = s\<lparr>issued := issued s @ cmds, emitted := emitted s @ ems,
                        logged := logged s @ logs\<rparr> \<and> list_all P cmds"
  by (simp add: steps_def)

lemma steps_ret: "steps P (ret a)"
  by (rule stepsI, rule exI [of _ "[]"], rule exI [of _ "[]"], rule exI [of _ "[]"])
     (simp add: ret_def)

lemma steps_panic: "steps P (panic msg)"
  by (rule stepsI, rule exI [of _ "[]"], rule exI [of _ "[]"], rule exI [of _ "[]"])
     (simp add: panic_def)

lemma steps_lift: "steps P (lift r)"
  by (rule stepsI, rule exI [of _ "[]"], rule exI [of _ "[]"], rule exI [of _ "[]"])
     (simp add: lift_def)

lemma steps_exit: "steps P (exit code)"
  by (rule stepsI, rule exI [of _ "[]"], rule exI [of _ "[]"], rule exI [of _ "[]"])
     (simp add: exit_def)

lemma steps_emit: "steps P (emit m)"
  by (rule stepsI, rule exI [of _ "[]"], rule exI [of _ "[m]"], rule exI [of _ "[]"])
     (simp add: emit_def)

lemma steps_logInfo: "steps P (logInfo msg)"
  by (rule stepsI, rule exI [of _ "[]"], rule exI [of _ "[]"], rule exI [of _ "[msg]"])
     (simp add: logInfo_def)

lemma steps_exec: "P opts \<Longrightarrow> steps P (execSmartctl W opts)"
  by (rule stepsI, rule exI [of _ "[opts]"], rule exI [of _ "[]"], rule exI [of _ "[]"])
     (simp add: execSmartctl_def)

lemma steps_andThen:
  assumes "steps P m" and "\<And>a. steps P (f a)"
  shows "steps P (andThen m f)"
proof (rule stepsI)
  fix s
  obtain c1 e1 l1 where m: "snd (m s) = s\<lparr>issued := issued s @ c1, emitted := emitted s @ e1,
                        logged := logged s @ l1\<rparr>" "list_all P c1"
    using stepsD [OF assms(1), of s] by blast
  show "\<exists>cmds ems logs.
        snd (andThen m f s) = s\<lparr>issued := issued s @ cmds, emitted := emitted s @ ems,
                        logged := logged s @ logs\<rparr> \<and> list_all P cmds"
  proof (cases "fst (m s)")
    case (Ok a)
    obtain c2 e2 l2 where f: "snd (f a (snd (m s))) = (snd (m s))\<lparr>issued := issued (snd (m s)) @ c2,
          emitted := emitted (snd (m s)) @ e2, logged := logged (snd (m s)) @ l2\<rparr>" "list_all P c2"
      using stepsD [OF assms(2), of a "snd (m s)"] by blast
    have "snd (andThen m f s) = snd (f a (snd (m s)))"
      using Ok by (cases "m s") (simp add: andThen_def)
    also have "\<dots> = s\<lparr>issued := issued s @ (c1 @ c2), emitted := emitted s @ (e1 @ e2),
                        logged := logged s @ (l1 @ l2)\<rparr>"
      by (simp only: f(1)) (simp add: m(1))
    finally show ?thesis using m(2) f(2) by (intro exI [of _ "c1 @ c2"] exI [of _ "e1 @ e2"] exI [of _ "l1 @ l2"]) simp
  next
    case (Panic msg)
    then have "snd (andThen m f s) = snd (m s)"
      by (cases "m s") (simp add: andThen_def)
    then show ?thesis using m by (intro exI [of _ c1] exI [of _ e1] exI [of _ l1]) simp
  next
    case (Exit code)
    then have "snd (andThen m f s) = snd (m s)"
      by (cases "m s") (simp add: andThen_def)
    then show ?thesis using m by (intro exI [of _ c1] exI [of _ e1] exI [of _ l1]) simp
  qed
qed

lemma steps_weaken:
  assumes "steps P m" and "\<And>c. P c \<Longrightarrow> Q c"
  shows "steps Q m"
proof (rule stepsI)
  fix s
  obtain c1 e1 l1 where m: "snd (m s) = s\<lparr>issued := issued s @ c1, emitted := emitted s @ e1,
                        logged := logged s @ l1\<rparr>" "list_all P c1"
    using stepsD [OF assms(1), of s] by blast
  have "list_all Q c1" using m(2) assms(2) by (simp add: list_all_iff)
  then show "\<exists>cmds ems logs.
        snd (m s) = s\<lparr>issued := issued s @ cmds, emitted := emitted s @ ems,
                        logged := logged s @ logs\<rparr> \<and> list_all Q cmds"
    using m(1) by blast
qed

lemmas steps_intros = steps_ret steps_panic steps_lift steps_exit steps_emit steps_logInfo
  steps_andThen

lemma steps_smartCtl: "P opts \<Longrightarrow> steps P (smartCtl W opts)"
  by (auto simp add: smartCtl_def split: sum.splits intro!: steps_intros steps_exec)

lemma steps_Version: "P smartctlVersionOpts \<Longrightarrow> steps P (Version W)"
  by (auto simp add: Version_def split: option.splits intro!: steps_intros steps_smartCtl)


lemma steps_CheckSupportedVersion: "P smartctlVersionOpts \<Longrightarrow> steps P (CheckSupportedVersion L W)"
  by (auto simp add: CheckSupportedVersion_def split: option.splits sum.splits
      intro!: steps_intros steps_Version)
















lemma steps_emitted:
  assumes "steps P m"
  shows "\<exists>ems. emitted (snd (m s)) = emitted s @ ems"
proof -
  obtain c1 e1 l1 where m: "snd (m s) = s\<lparr>issued := issued s @ c1, emitted := emitted s @ e1,
                        logged := logged s @ l1\<rparr>" "list_all P c1"
    using stepsD [OF assms, of s] by blast
  then show ?thesis by simp
qed









lemma steps_runSmartCmd: "P opts \<Longrightarrow> steps P (runSmartCmd W opts)"
  by (auto simp add: runSmartCmd_def split: sum.splits intro!: steps_intros steps_exec)







lemma steps_smartMonInfoMetrics:
  "P (smartctlDeviceInfoOptsMain @ [devType, dev]) \<Longrightarrow> steps P (smartMonInfoMetrics W dev devType)"
  by (auto simp add: smartMonInfoMetrics_def Let_def split: prod.splits
      intro!: steps_intros steps_runSmartCmd)

lemma steps_smartMonDeviceAttributes:
  "P (smartctlDeviceMetricOptsMain @ [devType, dev])
   \<Longrightarrow> steps P (smartMonDeviceAttributes L W dev devType)"
  by (auto simp add: smartMonDeviceAttributes_def smartMonDeviceSatAttributes_def
      intro!: steps_intros steps_runSmartCmd)

lemma steps_printMetrics: "steps P (printMetrics ms)"
  by (induction ms) (auto simp add: printMetric_def intro!: steps_intros)



text \<open>The start of every round of the loop of main: the run metric and the active metric.\<close>

lemma mainDevice_start:
  "\<exists>run act.
      fst (smartMonRunMetric W dev devType s) = Ok run \<and>
      fst (smartMonDeviceActive W dev devType s) = Ok act \<and>
      Value act = (case runCmd W (issued s) (activeCommandMain dev devType) of
                     Inl e \<Rightarrow> ''0'' | Inr out \<Rightarrow> ''1'') \<and>
      metricKey run = metricKey act \<and>
      mainDevice L W dev devType s =
        (if Value act = ''1''
         then andThen (smartMonInfoMetrics W dev devType) (\<lambda>infoMetrics.
              andThen (printMetrics infoMetrics) (\<lambda>_.
              andThen (smartMonDeviceAttributes L W dev devType) (\<lambda>attrMetrics.
              printMetrics attrMetrics)))
         else ret ())
          (s\<lparr>issued := issued s @ [activeCommandMain dev devType],
             emitted := emitted s @ [run, act]\<rparr>)"
  by (simp add: mainDevice_def smartMonRunMetric_def smartMonDeviceActive_def printMetric_def
      emit_def execSmartctl_def andThen_def ret_def Let_def metricKey_def activeCommandMain_def
      split: sum.splits)

lemma steps_mainTail:
  "steps (\<lambda>opts. True)
     (if v = ''1''
         then andThen (smartMonInfoMetrics W dev devType) (\<lambda>infoMetrics.
              andThen (printMetrics infoMetrics) (\<lambda>_.
              andThen (smartMonDeviceAttributes L W dev devType) (\<lambda>attrMetrics.
              printMetrics attrMetrics)))
         else ret ())"
  by (auto intro!: steps_intros steps_smartMonInfoMetrics steps_smartMonDeviceAttributes
      steps_printMetrics)














subsection \<open>Inactive devices\<close>




subsection \<open>Names and labels of the measurements of a pass\<close>

text \<open>
  Claim C3 fails in package \<open>main\<close>, for every device and every answer of \<open>smartctl\<close>: the
  round of \<open>main\<close> for a device prints the measurement of \<open>smartMonRunMetric\<close> and then the
  measurement of \<open>smartMonDeviceActive\<close>, and the two have the same name and the same labels.
  So the measurements of the round are not pairwise distinct in their name and labels.
\<close>

theorem run_and_active_measurements_share_name_and_labels:
  "(\<exists>run act rest.
      fst (smartMonRunMetric W dev devType s) = Ok run \<and>
      fst (smartMonDeviceActive W dev devType s) = Ok act \<and>
      metricKey run = metricKey act \<and>
      emitted (snd (mainDevice L W dev devType s)) = emitted s @ run # act # rest) \<and>
   \<not> distinct (map metricKey (emitted (snd (mainDevice L W dev devType s))))"
  using mainDevice_start [of W dev devType s L]
proof (elim exE conjE)
  fix run act
  let ?s4 = "s\<lparr>issued := issued s @ [activeCommandMain dev devType],
             emitted := emitted s @ [run, act]\<rparr>"
  let ?T = "if Value act = ''1''
         then andThen (smartMonInfoMetrics W dev devType) (\<lambda>infoMetrics.
              andThen (printMetrics infoMetrics) (\<lambda>_.
              andThen (smartMonDeviceAttributes L W dev devType) (\<lambda>attrMetrics.
              printMetrics attrMetrics)))
         else ret ()"
  assume r1: "fst (smartMonRunMetric W dev devType s) = Ok run"
    and r2: "fst (smartMonDeviceActive W dev devType s) = Ok act"
    and r3: "metricKey run = metricKey act"
    and m: "mainDevice L W dev devType s = ?T ?s4"
  have "\<exists>ems. emitted (snd (?T ?s4)) = emitted ?s4 @ ems"
    by (rule steps_emitted [OF steps_mainTail])
  then obtain rest where "emitted (snd (?T ?s4)) = emitted ?s4 @ rest" ..
  then have e: "emitted (snd (mainDevice L W dev devType s)) = emitted s @ run # act # rest"
    by (simp only: m) simp
  have n: "\<not> distinct (map metricKey (emitted (snd (mainDevice L W dev devType s))))"
    by (simp only: e) (simp add: r3)
  show ?thesis
    by (intro conjI exI [of _ run] exI [of _ act] exI [of _ rest]) (fact r1 r2 r3 e n)+
qed

subsection \<open>Label names\<close>
















subsection \<open>New metrics of package \<open>main\<close>\<close>

lemma NewMetric_value: "Value (NewMetric name labs val) = ''1''"
  by (simp add: NewMetric_def NewHelpMetric_def)

lemma satAttrLoop_values:
  "\<forall>m\<in>set acc. Value m = ''1'' \<Longrightarrow> \<forall>m\<in>set (satAttrLoop L labs lines acc). Value m = ''1''"
proof (induction lines arbitrary: acc)
  case Nil
  then show ?case by simp
next
  case (Cons line lines)
  show ?case
  proof (cases "length (Fields line) < 10")
    case True
    then show ?thesis using Cons by simp
  next
    case False
    then show ?thesis
      using Cons.prems by (simp add: Let_def del: append.simps) (rule Cons.IH, simp add: NewMetric_value)
  qed
qed

lemma andThen_Ok:
  "andThen m f s = (Ok b, s') \<Longrightarrow> \<exists>a s1. m s = (Ok a, s1) \<and> f a s1 = (Ok b, s')"
  by (auto simp add: andThen_def split: prod.splits result.splits)

theorem NewHelpMetric_value_constant:
  "Value (NewHelpMetric name labs val helpStr) = ''1'' \<and>
   Value (NewMetric name labs val) = ''1'' \<and>
   (\<forall>ms. fst (smartMonDeviceSatAttributes L W device devType s) = Ok ms
      \<longrightarrow> (\<forall>m\<in>set ms. Value m = ''1''))"
proof (intro conjI allI impI)
  fix ms
  assume "fst (smartMonDeviceSatAttributes L W device devType s) = Ok ms"
  then obtain s' where "smartMonDeviceSatAttributes L W device devType s = (Ok ms, s')"
    by (cases "smartMonDeviceSatAttributes L W device devType s") auto
  then obtain out s1 where
    "(if length out < 1 then panic ''slice bounds out of range''
      else ret (satAttrLoop L [''disk'' \<mapsto> device, ''type'' \<mapsto> devType]
                   (Split (drop 1 out) newline) [])) s1 = (Ok ms, s')"
    unfolding smartMonDeviceSatAttributes_def by (blast dest: andThen_Ok)
  then have "ms = satAttrLoop L [''disk'' \<mapsto> device, ''type'' \<mapsto> devType]
                   (Split (drop 1 out) newline) []"
    by (auto simp add: panic_def ret_def split: if_splits)
  then show "\<forall>m\<in>set ms. Value m = ''1''"
    using satAttrLoop_values [of "[]"] by simp
qed (simp_all add: NewMetric_def NewHelpMetric_def)



subsection \<open>The first line of the version output\<close>

text \<open>
  Claim C10. \<open>firstLine\<close> is partial: on the empty input it panics instead of returning a
  value, and so do \<open>Version\<close> (package \<open>smart\<close>) and \<open>smartMonVersion\<close> (package
  \<open>main\<close>) when \<open>smartctl -V\<close> succeeds with an empty output.
\<close>

theorem firstLine_panics_on_empty:
  "firstLine [] = Panic ''Unable to read first line'' \<and>
   (runCmd W (issued s) smartctlVersionOpts = Inr [] \<longrightarrow>
      fst (Version W s) = Panic ''Unable to read first line'' \<and>
      fst (smartMonVersion W s) = Panic ''Unable to read first line'')"
  by (simp add: firstLine_def Version_def smartMonVersion_def smartCtl_def runSmartCmd_def
      execSmartctl_def andThen_def ret_def lift_def)

theorem firstLine_panics_on_empty_witness:
  "fst (Version (versionWorld []) (emptyTrace :: Metric trace))
     = Panic ''Unable to read first line'' \<and>
   fst (smartMonVersion (versionWorld []) (emptyTrace :: Metric trace))
     = Panic ''Unable to read first line''"
  using firstLine_panics_on_empty [of "versionWorld []" "emptyTrace :: Metric trace"]
  by (simp add: versionWorld_def testWorld_def smartctlVersionOpts_def)

subsection \<open>The version checks\<close>

text \<open>
  Claim C1 says that every version check agrees with the component-wise numeric
  comparison. Two checks do not. \<open>smartCtrlCheckVersion\<close> (package \<open>main\<close>) compares the
  versions as floating-point numbers: the installed version 6.10 is at least 6.6 component
  by component, and the check refuses it as lower. \<open>CheckSupportedVersion\<close> (package
  \<open>smart\<close>) parses the installed version with the strict \<open>semver.Parse\<close>: the version 7.0,
  as \<open>smartctl\<close> prints it, is at least 6.6.0, and the check fails on it as unparsable.
\<close>

theorem version_checks_refuse_versions_at_least_minimum:
  "componentwiseAtLeast (versionComponents ''6.10'') (versionComponents ''6.6'') \<and>
   fst (smartCtrlCheckVersion goLib (versionWorld (versionOutput ''6.10'')) ''6.6''
          (emptyTrace :: Metric trace))
     = Ok (Some ''Installed smartctl version 6.10 is lower than the required minimum 6.6'') \<and>
   componentwiseAtLeast (versionComponents ''7.0'') (versionComponents smartMonMinVersion) \<and>
   fst (CheckSupportedVersion goLib (versionWorld (versionOutput ''7.0''))
          (emptyTrace :: Metric trace))
     = Ok (Some ''Unable to parse installed smartctl version:No Major.Minor.Patch elements found'')"
  by code_simp

end
